theory Spec2Isabelle
  imports Complex_Main
begin

section \<open>Python values and exceptions\<close>

text \<open>
  The module \<^verbatim>\<open>algosrest/client/parallel.py\<close> is embedded function by function.
  A Python exception is a value of \<open>error\<close>; a function that may raise returns
  \<open>error + 'a\<close>, with \<open>Inl\<close> for the exception. The constructors are the exception
  classes the module and the library calls it makes can raise.
\<close>

datatype error =
    TypeError string
  | ValueError string
  | RuntimeError string
  | OverflowError string
  | OSError string
  | HTTPException string
  | InvalidURL string
  | UnicodeDecodeError

subsection \<open>The built-in range and list slicing\<close>

text \<open>
  \<^verbatim>\<open>range(start, stop, step)\<close>: a zero step raises \<^verbatim>\<open>ValueError\<close>, a positive step counts
  up while the index is below \<open>stop\<close>, a negative step counts down while it is above.
\<close>

function range_up :: "int \<Rightarrow> int \<Rightarrow> int \<Rightarrow> int list" where
  "range_up i stop step =
     (if 0 < step \<and> i < stop then i # range_up (i + step) stop step else [])"
  by pat_completeness auto
termination
  by (relation "measure (\<lambda>(i, stop, step). nat (stop - i))") auto

function range_down :: "int \<Rightarrow> int \<Rightarrow> int \<Rightarrow> int list" where
  "range_down i stop step =
     (if step < 0 \<and> stop < i then i # range_down (i + step) stop step else [])"
  by pat_completeness auto
termination
  by (relation "measure (\<lambda>(i, stop, step). nat (i - stop))") auto

definition py_range :: "int \<Rightarrow> int \<Rightarrow> int \<Rightarrow> error + int list" where
  "py_range start stop step =
     (if step = 0 then Inl (ValueError ''range() arg 3 must not be zero'')
      else if 0 < step then Inr (range_up start stop step)
      else Inr (range_down start stop step))"

text \<open>
  \<^verbatim>\<open>xs[lo:hi]\<close>: a negative bound counts from the end, and both bounds are clamped to
  \<open>0 .. len(xs)\<close>; an empty or inverted interval gives the empty list. Slicing never raises.
\<close>

definition slice_index :: "int \<Rightarrow> int \<Rightarrow> nat" where
  "slice_index len i =
     (if i < 0 then (if i + len < 0 then 0 else nat (i + len))
      else if len < i then nat len else nat i)"

definition py_slice :: "'a list \<Rightarrow> int \<Rightarrow> int \<Rightarrow> 'a list" where
  "py_slice xs lo hi =
     (let len = int (length xs); a = slice_index len lo; b = slice_index len hi
      in take (b - a) (drop a xs))"

subsection \<open>RequestPool.chunks\<close>

text \<open>
  \<^verbatim>\<open>
  @staticmethod
  def chunks(array, n):
      for i in range(0, len(array), n):
          yield array[i:i+n]
  \<close>
  The method is a generator: the model is the list of everything it yields when it is
  consumed (\<^verbatim>\<open>list(chunks(array, n))\<close>), or the exception raised while consuming it. The
  method checks neither of its arguments.
\<close>

definition chunks :: "'a list \<Rightarrow> int \<Rightarrow> error + 'a list list" where
  "chunks array n =
     (case py_range 0 (int (length array)) n of
        Inl e \<Rightarrow> Inl e
      | Inr idx \<Rightarrow> Inr (map (\<lambda>i. py_slice array i (i + n)) idx))"

section \<open>Request descriptors\<close>

text \<open>
  The payload of a request is a dictionary from strings to JSON-serialisable values, kept
  as an association list in insertion order.
\<close>

datatype json =
    JNull
  | JBool bool
  | JInt int
  | JStr string
  | JList "json list"
  | JDict "(string \<times> json) list"

type_synonym payload = "(string \<times> json) list"

text \<open>
  \<^verbatim>\<open>
  class RequestInfo:
      def __init__(self, endpoint: str, method: str, data: Optional[dict[str, Any]] = None):
          self.endpoint = endpoint
          self.method = method.upper()
          self.data = data
  \<close>
  The fields have the annotated types; the field \<^verbatim>\<open>method\<close> is \<open>http_method\<close> here,
  \<open>method\<close> being a keyword. \<open>upper\<close> is \<^verbatim>\<open>str.upper\<close> on ASCII letters.
  The constructor has no \<^verbatim>\<open>raise\<close>: its model has no \<open>Inl\<close> branch.
\<close>

record RequestInfo =
  endpoint :: string
  http_method :: string
  data :: "payload option"

definition upper_char :: "char \<Rightarrow> char" where
  "upper_char c =
     (case map_of (zip ''abcdefghijklmnopqrstuvwxyz'' ''ABCDEFGHIJKLMNOPQRSTUVWXYZ'') c of
        Some u \<Rightarrow> u
      | None \<Rightarrow> c)"

definition upper :: "string \<Rightarrow> string" where
  "upper s = map upper_char s"

definition RequestInfo_init :: "string \<Rightarrow> string \<Rightarrow> payload option \<Rightarrow> error + RequestInfo" where
  "RequestInfo_init endpoint' method' data' =
     Inr \<lparr>endpoint = endpoint', http_method = upper method', data = data'\<rparr>"

text \<open>
  The validity of a descriptor in the words of the specification: a non-empty endpoint,
  method \<^verbatim>\<open>GET\<close> without payload or method \<^verbatim>\<open>POST\<close> with one.
\<close>

definition spec_valid_descriptor :: "RequestInfo \<Rightarrow> bool" where
  "spec_valid_descriptor r =
     (endpoint r \<noteq> [] \<and>
      (if http_method r = ''GET'' then data r = None
       else if http_method r = ''POST'' then data r \<noteq> None
       else False))"

text \<open>
  Objects have an identity. The class defines neither \<^verbatim>\<open>__eq__\<close> nor \<^verbatim>\<open>__hash__\<close>, so
  \<^verbatim>\<open>a == b\<close> on two instances is Python's default comparison of \<^verbatim>\<open>object\<close>: identity.
  The heap is the list of the instances allocated so far; a reference is an index into it.
\<close>

type_synonym heap = "RequestInfo list"

definition RequestInfo_new ::
  "heap \<Rightarrow> string \<Rightarrow> string \<Rightarrow> payload option \<Rightarrow> heap \<times> (error + nat)" where
  "RequestInfo_new h endpoint' method' data' =
     (case RequestInfo_init endpoint' method' data' of
        Inl e \<Rightarrow> (h, Inl e)
      | Inr obj \<Rightarrow> (h @ [obj], Inr (length h)))"

definition object_eq :: "nat \<Rightarrow> nat \<Rightarrow> bool" where
  "object_eq a b = (a = b)"

text \<open>
  Arguments that the code inspects with \<^verbatim>\<open>isinstance\<close> are dynamically typed values:
  \<^verbatim>\<open>None\<close>, integers, strings, \<^verbatim>\<open>RequestInfo\<close> instances, lists and dictionaries.
\<close>

datatype pyobj =
    ONone
  | OInt int
  | OStr string
  | OReq RequestInfo
  | OList "pyobj list"
  | ODict payload


section \<open>The worker pool\<close>

subsection \<open>concurrent.futures.ProcessPoolExecutor\<close>

text \<open>
  The executor belongs to Python's standard library; its model follows the library's source
  (\<^verbatim>\<open>concurrent/futures/process.py\<close> and \<^verbatim>\<open>_base.py\<close>), on a POSIX platform.

  The constructor: \<^verbatim>\<open>max_workers=None\<close> means one worker per processor, a value
  \<^verbatim>\<open>max_workers <= 0\<close> raises \<^verbatim>\<open>ValueError\<close>, a value that cannot be compared with
  \<open>0\<close> raises \<^verbatim>\<open>TypeError\<close>, and a value of \<open>2\<^sup>3\<^sup>1 - 1\<close> or more raises \<^verbatim>\<open>OverflowError\<close>
  when the call queue is created with room for \<^verbatim>\<open>max_workers + 1\<close> items.

  A callable handed to the executor does not run in the caller's process: the work item,
  the callable with its arguments, is pickled and sent to a worker. A function defined at
  the top of a file is pickled by its name; a bound method is pickled together with the
  object it is bound to. \<open>pickle_error\<close> is the exception that pickling the callable
  raises, if any. The arguments and results of this file (integers, lists of descriptors,
  lists of tuples) are always picklable.
\<close>

record ('a, 'r) callable =
  call :: "'a \<Rightarrow> error + 'r"
  pickle_error :: "error option"

text \<open>
  \<^verbatim>\<open>
  def submit(self, fn, /, *args, **kwargs):
      with self._shutdown_lock:
          ...
          if self._shutdown_thread:
              raise RuntimeError('cannot schedule new futures after shutdown')
          ...
          f = _base.Future()
          w = _WorkItem(f, fn, args, kwargs)
          self._pending_work_items[self._queue_count] = w
          ...
          return f
  \<close>
  A future is modelled by its outcome, the value \<^verbatim>\<open>f.result()\<close> returns or the exception it
  raises: \<open>error + 'r\<close>. When the work item cannot be pickled, the feeder of the call queue
  sets the pickling exception on the future (\<^verbatim>\<open>work_item.future.set_exception(e)\<close>), and
  the callable never runs; otherwise the outcome is that of the call in the worker.

  \<^verbatim>\<open>
  def map(self, fn, *iterables, timeout=None, chunksize=1):
      ...
      fs = [self.submit(fn, *args) for args in zip(*iterables)]
      def result_iterator(): ...
      return result_iterator()
  \<close>
  All the work is submitted before \<^verbatim>\<open>map\<close> returns, one \<^verbatim>\<open>submit\<close> per element, and the
  iterator yields the outcomes in submission order. The model returns the list of these
  outcomes.

  \<^verbatim>\<open>shutdown(wait=True)\<close> sets \<^verbatim>\<open>_shutdown_thread\<close> and joins the workers.

  The executor itself holds thread locks (\<^verbatim>\<open>self._shutdown_lock = threading.Lock()\<close>) and
  defines no pickling of its own, so pickling an executor, or any object that owns one,
  raises \<^verbatim>\<open>TypeError: cannot pickle '_thread.lock' object\<close>.
\<close>

record ProcessPoolExecutor =
  max_workers :: "int option"
  shutdown_thread :: bool

definition ProcessPoolExecutor_init :: "pyobj \<Rightarrow> error + ProcessPoolExecutor" where
  "ProcessPoolExecutor_init max_workers' =
     (case max_workers' of
        ONone \<Rightarrow> Inr \<lparr>max_workers = None, shutdown_thread = False\<rparr>
      | OInt n \<Rightarrow>
          if n \<le> 0 then Inl (ValueError ''max_workers must be greater than 0'')
          else if 2147483647 \<le> n
          then Inl (OverflowError ''Python int too large to convert to C int'')
          else Inr \<lparr>max_workers = Some n, shutdown_thread = False\<rparr>
      | _ \<Rightarrow> Inl (TypeError ''<= not supported between instances''))"

definition pickle_executor :: "ProcessPoolExecutor \<Rightarrow> error option" where
  "pickle_executor ex = Some (TypeError ''cannot pickle _thread.lock object'')"

definition submit ::
  "ProcessPoolExecutor \<Rightarrow> ('a, 'r) callable \<Rightarrow> 'a \<Rightarrow> error + (error + 'r)" where
  "submit ex fn arg =
     (if shutdown_thread ex
      then Inl (RuntimeError ''cannot schedule new futures after shutdown'')
      else Inr (case pickle_error fn of
                  Some err \<Rightarrow> Inl err
                | None \<Rightarrow> call fn arg))"

fun executor_map ::
  "ProcessPoolExecutor \<Rightarrow> ('a, 'r) callable \<Rightarrow> 'a list \<Rightarrow> error + (error + 'r) list" where
  "executor_map ex fn [] = Inr []"
| "executor_map ex fn (arg # args) =
     (case submit ex fn arg of
        Inl e \<Rightarrow> Inl e
      | Inr f \<Rightarrow>
          (case executor_map ex fn args of
             Inl e \<Rightarrow> Inl e
           | Inr fs \<Rightarrow> Inr (f # fs)))"

definition executor_shutdown :: "ProcessPoolExecutor \<Rightarrow> ProcessPoolExecutor" where
  "executor_shutdown ex = ex\<lparr>shutdown_thread := True\<rparr>"

subsection \<open>ProcessPool\<close>

text \<open>
  \<^verbatim>\<open>
  class ProcessPool:
      def __init__(self, n_workers):
          self.n_workers = n_workers
          self.executor = futures.ProcessPoolExecutor(max_workers=self.n_workers)
      def batch(self, func, iterables):
          results = self.executor.map(func, iterables)
          return results
      def single(self, func, arg):
          future = self.executor.submit(func, arg)
          return future
      def shutdown(self):
          self.executor.shutdown(wait=True)
  \<close>
  A \<open>ProcessPool\<close> owns its executor in the attribute \<^verbatim>\<open>executor\<close>: pickling the pool
  pickles the executor.
\<close>

record ProcessPool =
  n_workers :: pyobj
  executor :: ProcessPoolExecutor

definition ProcessPool_init :: "pyobj \<Rightarrow> error + ProcessPool" where
  "ProcessPool_init n_workers' =
     (case ProcessPoolExecutor_init n_workers' of
        Inl e \<Rightarrow> Inl e
      | Inr ex \<Rightarrow> Inr \<lparr>n_workers = n_workers', executor = ex\<rparr>)"

definition batch ::
  "ProcessPool \<Rightarrow> ('a, 'r) callable \<Rightarrow> 'a list \<Rightarrow> error + (error + 'r) list" where
  "batch self func iterables = executor_map (executor self) func iterables"

definition single ::
  "ProcessPool \<Rightarrow> ('a, 'r) callable \<Rightarrow> 'a \<Rightarrow> error + (error + 'r)" where
  "single self func arg = submit (executor self) func arg"

definition ProcessPool_shutdown :: "ProcessPool \<Rightarrow> ProcessPool" where
  "ProcessPool_shutdown self = self\<lparr>executor := executor_shutdown (executor self)\<rparr>"

definition pickle_ProcessPool :: "ProcessPool \<Rightarrow> error option" where
  "pickle_ProcessPool self = pickle_executor (executor self)"

section \<open>The request pool\<close>

subsection \<open>Effects and environment\<close>

text \<open>
  What the code does to the outside world is recorded as a trace of events: the creation of
  the executor, and on an \<^verbatim>\<open>http.client.HTTPConnection\<close> its creation, each
  \<^verbatim>\<open>conn.request(method, url, body, headers)\<close> with its arguments, \<^verbatim>\<open>conn.getresponse()\<close>,
  \<^verbatim>\<open>response.read()\<close> and \<^verbatim>\<open>conn.close()\<close>.
\<close>

type_synonym headers = "(string \<times> string) list"

record http_request =
  req_method :: string
  url :: string
  body :: "string option"
  req_headers :: headers

datatype event =
    ExecutorCreated pyobj
  | ConnCreated string int
  | ConnRequest http_request
  | ConnGetResponse
  | ResponseRead
  | ConnClose

text \<open>
  What the outside world answers is the environment of a worker:
  \<^item> \<open>time_time n\<close> is the value of the \<open>n\<close>-th call of \<^verbatim>\<open>time.time()\<close>, the wall clock,
    in seconds; the float is read as the real number it denotes, and the difference of two
    readings has the sign of the exact difference;
  \<^item> \<open>http_connection host port\<close> is what \<^verbatim>\<open>http.client.HTTPConnection(host, port)\<close> does:
    \<open>None\<close> when the connection object is constructed, \<open>Some err\<close> when the constructor
    raises \<open>err\<close>;
  \<^item> \<open>transport k req\<close> is what happens to the \<open>k\<close>-th request sent on the connection:
    \<^verbatim>\<open>conn.request\<close> raises, \<^verbatim>\<open>conn.getresponse\<close> raises, \<^verbatim>\<open>response.read\<close> raises,
    the body is not UTF-8 (\<^verbatim>\<open>decode\<close> raises), or the body decodes to a text;
  \<^item> \<open>json_dumps d\<close> is \<^verbatim>\<open>json.dumps(d).encode("utf-8")\<close>, the serialised payload as
    bytes, a function of the standard library.
\<close>

datatype outcome =
    RequestRaises error
  | GetResponseRaises error
  | ReadRaises error
  | DecodeRaises
  | Replies string

record env =
  time_time :: "nat \<Rightarrow> real"
  http_connection :: "string \<Rightarrow> int \<Rightarrow> error option"
  transport :: "nat \<Rightarrow> http_request \<Rightarrow> outcome"
  json_dumps :: "payload \<Rightarrow> string"


text \<open>
  The constructor of the standard library (\<^verbatim>\<open>http/client.py\<close>), given a port: it strips the
  brackets of an IPv6 literal and refuses a host that holds a control character, a space
  or DEL; it does not open the socket.
  \<^verbatim>\<open>
  _contains_disallowed_url_pchar_re = re.compile('[\x00-\x20\x7f]')
  def __init__(self, host, port=None, ...):
      ...
      (self.host, self.port) = self._get_hostport(host, port)
      self._validate_host(self.host)
  def _get_hostport(self, host, port):
      if port is None: ...
      if host and host[0] == '[' and host[-1] == ']':
          host = host[1:-1]
      return (host, port)
  def _validate_host(self, host):
      match = _contains_disallowed_url_pchar_re.search(host)
      if match:
          raise InvalidURL(...)
  \<close>
\<close>

definition disallowed_url_char :: "char \<Rightarrow> bool" where
  "disallowed_url_char c = ((of_char c :: nat) \<le> 32 \<or> (of_char c :: nat) = 127)"

definition HTTPConnection_init :: "string \<Rightarrow> int \<Rightarrow> error option" where
  "HTTPConnection_init host p =
     (let h = (if host \<noteq> [] \<and> hd host = CHR ''['' \<and> last host = CHR '']''
               then butlast (tl host) else host)
      in if list_ex disallowed_url_char h
         then Some (InvalidURL ''URL can not contain control characters'')
         else None)"

subsection \<open>RequestPool.__init__\<close>

text \<open>
  \<^verbatim>\<open>
  def __init__(self, n_workers: int, hostname: str, port: int):
      self.pool = ProcessPool(n_workers)
      self.hostname = hostname
      self.port = port
      if not isinstance(self.hostname, str):
          raise TypeError("Hostname not given as string")
      if not isinstance(self.port, int):
          raise TypeError("Port not given as int.")
      if self.hostname == "":
          raise ValueError("Blank hostname given")
      if self.port < 1:
          raise ValueError("Invalid port number given")
  \<close>
  The first statement creates the worker pool; the four checks follow it, in this order.
  A \<open>RequestPool\<close> owns its worker pool in the attribute \<^verbatim>\<open>pool\<close>: pickling the request
  pool pickles the worker pool.
\<close>

record RequestPool =
  pool :: ProcessPool
  hostname :: string
  port :: int

definition RequestPool_init ::
  "pyobj \<Rightarrow> pyobj \<Rightarrow> pyobj \<Rightarrow> event list \<times> (error + RequestPool)" where
  "RequestPool_init n_workers' hostname' port' =
     (case ProcessPool_init n_workers' of
        Inl e \<Rightarrow> ([], Inl e)
      | Inr p \<Rightarrow>
          ([ExecutorCreated n_workers'],
           case hostname' of
             OStr h \<Rightarrow>
               (case port' of
                  OInt pt \<Rightarrow>
                    if h = [] then Inl (ValueError ''Blank hostname given'')
                    else if pt < 1 then Inl (ValueError ''Invalid port number given'')
                    else Inr \<lparr>pool = p, hostname = h, port = pt\<rparr>
                | _ \<Rightarrow> Inl (TypeError ''Port not given as int.''))
           | _ \<Rightarrow> Inl (TypeError ''Hostname not given as string'')))"

definition pickle_RequestPool :: "RequestPool \<Rightarrow> error option" where
  "pickle_RequestPool self = pickle_ProcessPool (pool self)"

subsection \<open>RequestPool.request\<close>

text \<open>\<^verbatim>\<open>str(n)\<close> for an integer, used for the port and the content length.\<close>

definition digit_char :: "nat \<Rightarrow> char" where
  "digit_char d = ''0123456789'' ! d"

function str_nat :: "nat \<Rightarrow> string" where
  "str_nat n = (if n < 10 then [digit_char n] else str_nat (n div 10) @ [digit_char (n mod 10)])"
  by pat_completeness auto
termination
  by (relation "measure (\<lambda>n. n)") auto

definition str_int :: "int \<Rightarrow> string" where
  "str_int i = (if i < 0 then CHR ''-'' # str_nat (nat (- i)) else str_nat (nat i))"

text \<open>
  The two header dictionaries of the method, in insertion order:
  \<^verbatim>\<open>
  headers = {
      "Connection": "keep-alive",
      "Host": f"{self.hostname}:{self.port}",
      "User-Agent": "algosrestclient/0.1.0",
      "Accept": "*/*"
  }
  post_headers = {
      "Content-Length": str(len(encoded_args)),
      "Content-type": "application/json",
      "Host": f"{self.hostname}:{self.port}",
      "User-Agent": "algosrestclient/0.1.0",
      "Accept": "*/*",
      "Connection": " keep-alive"
  }
  \<close>
\<close>

definition get_headers :: "RequestPool \<Rightarrow> headers" where
  "get_headers self =
     [(''Connection'', ''keep-alive''),
      (''Host'', hostname self @ '':'' @ str_int (port self)),
      (''User-Agent'', ''algosrestclient/0.1.0''),
      (''Accept'', ''*/*'')]"

definition post_headers :: "RequestPool \<Rightarrow> string \<Rightarrow> headers" where
  "post_headers self encoded_args =
     [(''Content-Length'', str_nat (length encoded_args)),
      (''Content-type'', ''application/json''),
      (''Host'', hostname self @ '':'' @ str_int (port self)),
      (''User-Agent'', ''algosrestclient/0.1.0''),
      (''Accept'', ''*/*''),
      (''Connection'', '' keep-alive'')]"

text \<open>
  The arguments of the one \<^verbatim>\<open>conn.request\<close> call made for a descriptor:
  \<^verbatim>\<open>
  if req_info.data is None:
      conn.request(req_info.method, req_info.endpoint, headers=headers)
  else:
      encoded_args = bytes(json.dumps(req_info.data).encode("utf-8"))
      post_headers = {...}
      conn.request(req_info.method, req_info.endpoint, body=encoded_args, headers=post_headers)
  \<close>
\<close>

definition conn_request :: "env \<Rightarrow> RequestPool \<Rightarrow> RequestInfo \<Rightarrow> http_request" where
  "conn_request e self req_info =
     (case data req_info of
        None \<Rightarrow>
          \<lparr>req_method = http_method req_info, url = endpoint req_info, body = None,
           req_headers = get_headers self\<rparr>
      | Some d \<Rightarrow>
          (let encoded_args = json_dumps e d
           in \<lparr>req_method = http_method req_info, url = endpoint req_info,
               body = Some encoded_args,
               req_headers = post_headers self encoded_args\<rparr>))"

text \<open>
  The loop over the descriptors; \<open>k\<close> counts the descriptors already processed, so the
  two clock readings of this iteration are the readings \<open>2 * k\<close> and \<open>2 * k + 1\<close>.
  \<^verbatim>\<open>
  for req_info in req_infos:
      start = time.time()
      ... conn.request(...) ...
      response = conn.getresponse()
      response_data = response.read().decode("utf-8")
      end = time.time()
      results.append((response_data, end - start, req_info.endpoint))
  \<close>
  An exception raised in the body leaves the loop and the method at once: there is no
  \<^verbatim>\<open>try\<close> in the method.
\<close>

type_synonym result_tuple = "string \<times> real \<times> string"

fun request_loop ::
  "env \<Rightarrow> RequestPool \<Rightarrow> RequestInfo list \<Rightarrow> nat \<Rightarrow> result_tuple list
     \<Rightarrow> event list \<times> (error + result_tuple list)" where
  "request_loop e self [] k results = ([], Inr results)"
| "request_loop e self (req_info # rest) k results =
     (let start = time_time e (2 * k);
          req = conn_request e self req_info
      in case transport e k req of
           RequestRaises err \<Rightarrow> ([ConnRequest req], Inl err)
         | GetResponseRaises err \<Rightarrow> ([ConnRequest req, ConnGetResponse], Inl err)
         | ReadRaises err \<Rightarrow> ([ConnRequest req, ConnGetResponse, ResponseRead], Inl err)
         | DecodeRaises \<Rightarrow>
             ([ConnRequest req, ConnGetResponse, ResponseRead], Inl UnicodeDecodeError)
         | Replies response_data \<Rightarrow>
             (let end_time = time_time e (2 * k + 1);
                  (tr, res) = request_loop e self rest (k + 1)
                                (results @ [(response_data, end_time - start, endpoint req_info)])
              in ([ConnRequest req, ConnGetResponse, ResponseRead] @ tr, res)))"

text \<open>
  \<^verbatim>\<open>
  def request(self, req_infos):
      if not isinstance(req_infos, list):
          raise TypeError("Unsupported Type for Input List")
      if not all([isinstance(x, RequestInfo) for x in req_infos]):
          raise TypeError("Unsupported Type for Input Elements")
      results = list()
      conn = http.client.HTTPConnection(self.hostname, self.port)
      headers = {...}
      for req_info in req_infos: ...
      conn.close()
      return results
  \<close>
  \<open>as_requests\<close> is the second check: it gives the elements as descriptors when all of
  them are \<^verbatim>\<open>RequestInfo\<close> instances. The constructor of the connection may raise; the
  exception then leaves the method before any connection exists. The method checks
  neither the hostname nor the port.
\<close>

fun as_requests :: "pyobj list \<Rightarrow> RequestInfo list option" where
  "as_requests [] = Some []"
| "as_requests (OReq r # xs) = map_option ((#) r) (as_requests xs)"
| "as_requests (_ # xs) = None"

definition request ::
  "env \<Rightarrow> RequestPool \<Rightarrow> pyobj \<Rightarrow> event list \<times> (error + result_tuple list)" where
  "request e self req_infos =
     (case req_infos of
        OList xs \<Rightarrow>
          (case as_requests xs of
             None \<Rightarrow> ([], Inl (TypeError ''Unsupported Type for Input Elements''))
           | Some rs \<Rightarrow>
               (case http_connection e (hostname self) (port self) of
                  Some err \<Rightarrow> ([], Inl err)
                | None \<Rightarrow>
                    (let (tr, res) = request_loop e self rs 0 []
                     in case res of
                          Inl err \<Rightarrow> (ConnCreated (hostname self) (port self) # tr, Inl err)
                        | Inr results \<Rightarrow>
                            (ConnCreated (hostname self) (port self) # tr @ [ConnClose],
                             Inr results))))
      | _ \<Rightarrow> ([], Inl (TypeError ''Unsupported Type for Input List'')))"

subsection \<open>RequestPool.batch_request, single_request and shutdown\<close>

text \<open>
  \<^verbatim>\<open>
  def batch_request(self, req_infos):
      results = self.pool.batch(self.request, req_infos)
      return results
  def single_request(self, req_info: RequestInfo):
      results = self.pool.single(self.request, [req_info])
      return results
  def shutdown(self):
      self.pool.shutdown()
  \<close>
  \<open>worker\<close> is what a call of \<^verbatim>\<open>self.request\<close> returns or raises, in the environment of
  the process that runs it. \<open>bound_request\<close> is the callable both methods hand to the
  pool, the bound method \<^verbatim>\<open>self.request\<close>: pickling it pickles \<^verbatim>\<open>self\<close>.
\<close>

definition worker :: "env \<Rightarrow> RequestPool \<Rightarrow> pyobj \<Rightarrow> error + result_tuple list" where
  "worker e self req_infos = snd (request e self req_infos)"

definition bound_request :: "env \<Rightarrow> RequestPool \<Rightarrow> (pyobj, result_tuple list) callable" where
  "bound_request e self = \<lparr>call = worker e self, pickle_error = pickle_RequestPool self\<rparr>"

definition batch_request ::
  "env \<Rightarrow> RequestPool \<Rightarrow> pyobj list \<Rightarrow> error + (error + result_tuple list) list" where
  "batch_request e self req_infos = batch (pool self) (bound_request e self) req_infos"

definition single_request ::
  "env \<Rightarrow> RequestPool \<Rightarrow> pyobj \<Rightarrow> error + (error + result_tuple list)" where
  "single_request e self req_info =
     single (pool self) (bound_request e self) (OList [req_info])"

definition RequestPool_shutdown :: "RequestPool \<Rightarrow> RequestPool" where
  "RequestPool_shutdown self = self\<lparr>pool := ProcessPool_shutdown (pool self)\<rparr>"

subsection \<open>Reading traces and header fields\<close>








section \<open>Test data\<close>

text \<open>
  The values the unit tests of the module use: \<^verbatim>\<open>RequestInfo(endpoint=x, method="GET")\<close>,
  the root request, \<^verbatim>\<open>RequestPool(1, "localhost", 8081)\<close>, \<^verbatim>\<open>ProcessPool(3)\<close>, the function
  \<^verbatim>\<open>square\<close>, defined at the top of the test file and so picklable, and a mock transport
  that answers every request with the same body.
\<close>

definition get_req :: "string \<Rightarrow> RequestInfo" where
  "get_req x = \<lparr>endpoint = x, http_method = ''GET'', data = None\<rparr>"

definition root_req :: RequestInfo where
  "root_req = get_req ''/''"


definition process_pool3 :: ProcessPool where
  "process_pool3 =
     \<lparr>n_workers = OInt 3, executor = \<lparr>max_workers = Some 3, shutdown_thread = False\<rparr>\<rparr>"

definition localhost_pool :: RequestPool where
  "localhost_pool =
     \<lparr>pool = \<lparr>n_workers = OInt 1,
              executor = \<lparr>max_workers = Some 1, shutdown_thread = False\<rparr>\<rparr>,
      hostname = ''localhost'', port = 8081\<rparr>"

definition square :: "(int, int) callable" where
  "square = \<lparr>call = (\<lambda>x. Inr (x * x)), pickle_error = None\<rparr>"

text \<open>
  Three environments. In each the clock and the transport are fixed and connections are
  constructed as the standard library does; the serialiser is only ever applied to the
  empty dictionary, whose JSON text is \<^verbatim>\<open>{}\<close>.
\<close>

definition mock_env :: env where
  "mock_env =
     \<lparr>time_time = (\<lambda>n. real n),
      http_connection = HTTPConnection_init,
      transport = (\<lambda>k req. Replies ''okay''),
      json_dumps = (\<lambda>d. ''{}'')\<rparr>"



declare range_up.simps [simp del] range_down.simps [simp del] str_nat.simps [simp del]

section \<open>Partitioning\<close>

lemma range_up_eq:
  "0 < step \<Longrightarrow> range_up i stop step =
     map (\<lambda>k. i + int k * step) [0..<nat ((stop - i + step - 1) div step)]"
proof (induction i stop step rule: range_up.induct)
  case (1 i stop step)
  show ?case
  proof (cases "i < stop")
    case True
    let ?m = "(stop - (i + step) + step - 1) div step"
    have "stop - i + step - 1 = (stop - (i + step) + step - 1) + 1 * step" by simp
    then have "(stop - i + step - 1) div step
             = ((stop - (i + step) + step - 1) + 1 * step) div step"
      by (rule arg_cong)
    also have "\<dots> = 1 + ?m"
      using 1(2) by (subst div_mult_self1) simp_all
    finally have d: "(stop - i + step - 1) div step = ?m + 1" by simp
    have nn: "0 \<le> ?m"
      using 1(2) True by (simp add: pos_imp_zdiv_nonneg_iff)
    have n: "nat (?m + 1) = Suc (nat ?m)" using nn by simp
    have "range_up i stop step = i # range_up (i + step) stop step"
      using True 1(2) by (subst range_up.simps) simp
    also have "range_up (i + step) stop step = map (\<lambda>k. i + step + int k * step) [0..<nat ?m]"
      using 1(1) True 1(2) by simp
    also have "i # map (\<lambda>k. i + step + int k * step) [0..<nat ?m]
             = map (\<lambda>k. i + int k * step) [0..<Suc (nat ?m)]"
      by (simp add: upt_conv_Cons map_Suc_upt [symmetric] algebra_simps del: upt_Suc)
    finally show ?thesis by (simp only: d n)
  next
    case False
    have "(stop - i + step - 1) div step \<le> 0"
    proof -
      have "stop - i + step - 1 < step" using False by simp
      then have "\<not> 0 < (stop - i + step - 1) div step"
        using 1(2) by (simp add: pos_imp_zdiv_pos_iff)
      then show ?thesis by simp
    qed
    then show ?thesis using False by (simp add: range_up.simps)
  qed
qed

lemma slice_take_drop:
  "0 \<le> lo \<Longrightarrow> lo \<le> hi \<Longrightarrow> py_slice xs lo hi = take (nat (hi - lo)) (drop (nat lo) xs)"
  by (auto simp: py_slice_def slice_index_def Let_def nat_diff_distrib)

lemma concat_take_drop:
  "concat (map (\<lambda>k. take n (drop (k * n) xs)) [0..<m]) = take (m * n) xs"
proof (induction m)
  case 0
  show ?case by simp
next
  case (Suc m)
  have "take (m * n) xs @ take n (drop (m * n) xs) = take (m * n + n) xs"
    by (simp add: take_add)
  then show ?case using Suc by (simp add: add.commute)
qed

lemma ceil_div_int:
  fixes a n :: int
  assumes "0 < n"
  shows "- (- a div n) = (a + n - 1) div n"
proof -
  let ?q = "a div n" and ?r = "a mod n"
  have r: "0 \<le> ?r" "?r < n" using assms by simp_all
  have "a + n - 1 = (?r + n - 1) + ?q * n" by simp
  then have "(a + n - 1) div n = ((?r + n - 1) + ?q * n) div n" by (rule arg_cong)
  also have "\<dots> = ?q + (?r + n - 1) div n"
    using assms by (subst div_mult_self1) simp_all
  finally have e: "(a + n - 1) div n = (?r + n - 1) div n + ?q" by simp
  show ?thesis
  proof (cases "?r = 0")
    case True
    have "(?r + n - 1) div n = 0" using True assms by (simp add: div_pos_pos_trivial)
    moreover have "- a div n = - ?q" using True assms by (simp add: zdiv_zminus1_eq_if)
    ultimately show ?thesis using e by simp
  next
    case False
    have "?r + n - 1 = (?r - 1) + 1 * n" by simp
    then have "(?r + n - 1) div n = ((?r - 1) + 1 * n) div n" by (rule arg_cong)
    also have "\<dots> = 1 + (?r - 1) div n"
      using assms by (subst div_mult_self1) simp_all
    finally have "(?r + n - 1) div n = (?r - 1) div n + 1" by simp
    moreover have "(?r - 1) div n = 0" using False r by (simp add: div_pos_pos_trivial)
    moreover have "- a div n = - ?q - 1" using False assms by (simp add: zdiv_zminus1_eq_if)
    ultimately show ?thesis using e by simp
  qed
qed

lemma ceil_div: "0 < n \<Longrightarrow> \<lceil>real L / real_of_int n\<rceil> = (int L + n - 1) div n"
proof -
  assume n: "0 < n"
  have "\<lceil>real L / real_of_int n\<rceil> = \<lceil>real_of_int (int L) / real_of_int n\<rceil>" by simp
  also have "\<dots> = - (- int L div n)" by (rule ceiling_divide_eq_div)
  also have "\<dots> = (int L + n - 1) div n" using n by (rule ceil_div_int)
  finally show ?thesis .
qed

lemma chunks_pos:
  assumes "0 < n"
  shows "chunks xs n =
    Inr (map (\<lambda>k. take (nat n) (drop (k * nat n) xs))
         [0..<nat ((int (length xs) + n - 1) div n)])"
proof -
  have sl: "py_slice xs (0 + int k * n) (0 + int k * n + n) = take (nat n) (drop (k * nat n) xs)"
    for k
  proof -
    have "py_slice xs (int k * n) (int k * n + n)
        = take (nat (int k * n + n - int k * n)) (drop (nat (int k * n)) xs)"
      using assms by (intro slice_take_drop) simp_all
    moreover have "nat (int k * n) = k * nat n" using assms by (simp add: nat_mult_distrib)
    ultimately show ?thesis by simp
  qed
  have "py_range 0 (int (length xs)) n = Inr (range_up 0 (int (length xs)) n)"
    using assms by (simp add: py_range_def)
  then show ?thesis
    using assms by (simp add: chunks_def range_up_eq [OF assms] sl del: add_0)
qed

lemma chunk_count:
  assumes "0 < n"
  shows "nat ((int L + n - 1) div n) * nat n \<ge> L"
    and "L > 0 \<Longrightarrow> (nat ((int L + n - 1) div n) - 1) * nat n < L"
proof -
  let ?a = "int L + n - 1"
  let ?q = "?a div n"
  have q: "0 \<le> ?q" using assms by (simp add: pos_imp_zdiv_nonneg_iff)
  have "?q * n + ?a mod n = ?a" by simp
  moreover have "0 \<le> ?a mod n" "?a mod n < n" using assms by simp_all
  ultimately have lo: "int L \<le> ?q * n" and hi: "?q * n \<le> int L + n - 1" by linarith+
  have i: "int (nat ?q * nat n) = ?q * n" using q assms by simp
  show "L \<le> nat ?q * nat n" using lo i by linarith
  show "(nat ?q - 1) * nat n < L" if "L > 0"
  proof (cases "nat ?q")
    case 0
    then show ?thesis using that by simp
  next
    case (Suc m)
    then have "int (nat ?q * nat n) = int (m * nat n) + n" using assms by (simp add: algebra_simps)
    then have "int (m * nat n) < int L" using hi i by linarith
    then have "m * nat n < L" by (simp only: of_nat_less_iff)
    then show ?thesis using Suc by simp
  qed
qed

lemma chunk_count_empty: "0 < n \<Longrightarrow> nat ((int 0 + n - 1) div n) = 0"
  by (simp add: div_pos_pos_trivial)

text \<open>
  The two scenarios of the unit tests: three requests in chunks of two and of one.
\<close>

lemma chunks_scenario_two:
  "chunks [get_req ''a'', get_req ''b'', get_req ''c''] 2
     = Inr [[get_req ''a'', get_req ''b''], [get_req ''c'']]"
  by (simp add: chunks_def py_range_def range_up.simps py_slice_def slice_index_def)

lemma chunks_scenario_one:
  "chunks [get_req ''a'', get_req ''b'', get_req ''c''] 1
     = Inr [[get_req ''a''], [get_req ''b''], [get_req ''c'']]"
  by (simp add: chunks_def py_range_def range_up.simps py_slice_def slice_index_def)

text \<open>
  C1. For every list \<open>xs\<close> and every \<open>n \<ge> 1\<close>, consuming \<open>chunks xs n\<close> raises nothing and
  yields exactly \<open>\<lceil>length xs / n\<rceil>\<close> chunks; the \<open>k\<close>-th chunk is the contiguous run of at
  most \<open>n\<close> elements of \<open>xs\<close> that starts at position \<open>k * n\<close>; every chunk but the last has
  length \<open>n\<close>, the last has between \<open>1\<close> and \<open>n\<close> elements; and the chunks concatenated in
  order are \<open>xs\<close>.
\<close>

theorem chunks_partition:
  assumes "1 \<le> n"
  shows "\<exists>cs. chunks xs n = Inr cs
     \<and> int (length cs) = \<lceil>real (length xs) / real_of_int n\<rceil>
     \<and> (\<forall>k < length cs. cs ! k = take (nat n) (drop (k * nat n) xs))
     \<and> (\<forall>k. Suc k < length cs \<longrightarrow> length (cs ! k) = nat n)
     \<and> (cs \<noteq> [] \<longrightarrow> 1 \<le> length (last cs) \<and> length (last cs) \<le> nat n)
     \<and> concat cs = xs"
proof -
  let ?m = "nat ((int (length xs) + n - 1) div n)"
  let ?cs = "map (\<lambda>k. take (nat n) (drop (k * nat n) xs)) [0..<?m]"
  have n: "0 < n" using assms by simp
  have c: "chunks xs n = Inr ?cs" using n by (rule chunks_pos)
  have nn: "0 \<le> (int (length xs) + n - 1) div n"
    using n by (simp add: pos_imp_zdiv_nonneg_iff)
  have len: "int (length ?cs) = \<lceil>real (length xs) / real_of_int n\<rceil>"
    using nn by (simp add: ceil_div [OF n])
  have nth: "\<forall>k < length ?cs. ?cs ! k = take (nat n) (drop (k * nat n) xs)"
    by simp
  have cover: "length xs \<le> ?m * nat n" using n by (rule chunk_count(1))
  have full: "\<forall>k. Suc k < length ?cs \<longrightarrow> length (?cs ! k) = nat n"
  proof (intro allI impI)
    fix k assume k: "Suc k < length ?cs"
    then have "Suc k \<le> ?m - 1" by simp
    then have "Suc k * nat n \<le> (?m - 1) * nat n" by (rule mult_le_mono1)
    moreover have "(?m - 1) * nat n < length xs"
    proof (rule chunk_count(2) [OF n])
      show "0 < length xs"
      proof (rule ccontr)
        assume "\<not> 0 < length xs"
        then have "?m = 0" using chunk_count_empty [OF n] by simp
        then show False using k by simp
      qed
    qed
    ultimately have "k * nat n + nat n \<le> length xs" by simp
    then show "length (?cs ! k) = nat n" using k by simp
  qed
  have lst: "?cs \<noteq> [] \<longrightarrow> 1 \<le> length (last ?cs) \<and> length (last ?cs) \<le> nat n"
  proof
    assume ne: "?cs \<noteq> []"
    then have m: "0 < ?m" by simp
    have xs: "0 < length xs"
    proof (rule ccontr)
      assume "\<not> 0 < length xs"
      then have "?m = 0" using chunk_count_empty [OF n] by simp
      then show False using m by simp
    qed
    have "last ?cs = ?cs ! (?m - 1)" using ne by (simp add: last_conv_nth del: nth_map)
    also have "\<dots> = take (nat n) (drop ((?m - 1) * nat n) xs)" using m by simp
    finally have l: "last ?cs = take (nat n) (drop ((?m - 1) * nat n) xs)" .
    have "(?m - 1) * nat n < length xs" using xs by (rule chunk_count(2) [OF n])
    then have "1 \<le> length xs - (?m - 1) * nat n" by simp
    moreover have "1 \<le> nat n" using n by simp
    ultimately show "1 \<le> length (last ?cs) \<and> length (last ?cs) \<le> nat n"
      by (simp add: l)
  qed
  have cat: "concat ?cs = xs" using cover by (simp add: concat_take_drop)
  show ?thesis using c len nth full lst cat by blast
qed

theorem chunks_partition_witness:
  "(1::int) \<le> 2 \<and>
   (\<exists>cs. chunks [get_req ''a'', get_req ''b'', get_req ''c''] 2 = Inr cs
     \<and> int (length cs)
         = \<lceil>real (length [get_req ''a'', get_req ''b'', get_req ''c'']) / real_of_int 2\<rceil>
     \<and> (\<forall>k < length cs.
           cs ! k = take (nat 2) (drop (k * nat 2) [get_req ''a'', get_req ''b'', get_req ''c'']))
     \<and> (\<forall>k. Suc k < length cs \<longrightarrow> length (cs ! k) = nat 2)
     \<and> (cs \<noteq> [] \<longrightarrow> 1 \<le> length (last cs) \<and> length (last cs) \<le> nat 2)
     \<and> concat cs = [get_req ''a'', get_req ''b'', get_req ''c''])"
proof -
  have h: "(1::int) \<le> 2" by simp
  show ?thesis
    using h chunks_partition [OF h, of "[get_req ''a'', get_req ''b'', get_req ''c'']"]
    by (intro conjI)
qed

text \<open>
  C10 as stated: every chunk size \<open>n \<le> 0\<close> makes \<open>chunks\<close> fail. It does not: with
  \<open>n = - 1\<close> the range is empty, nothing is raised and nothing is yielded.
\<close>

theorem chunks_negative_counterexample:
  "\<not> isl (chunks [get_req ''a'', get_req ''b'', get_req ''c''] (- 1))"
  by (simp add: chunks_def py_range_def range_down.simps)

text \<open>
  C10 amended. A chunk size of \<open>0\<close> is rejected: consuming the generator raises the
  \<^verbatim>\<open>ValueError\<close> of \<^verbatim>\<open>range\<close>. A negative chunk size is not rejected: for every list the
  generator yields no chunk at all.
\<close>

theorem chunks_nonpositive:
  "chunks xs 0 = Inl (ValueError ''range() arg 3 must not be zero'')
   \<and> (n < 0 \<longrightarrow> chunks xs n = Inr [])"
  by (simp add: chunks_def py_range_def range_down.simps)

theorem chunks_nonpositive_witness:
  "chunks [get_req ''a'', get_req ''b'', get_req ''c''] 0
     = Inl (ValueError ''range() arg 3 must not be zero'')
   \<and> (- 1 :: int) < 0
   \<and> chunks [get_req ''a'', get_req ''b'', get_req ''c''] (- 1) = Inr []"
  using chunks_nonpositive [of "[get_req ''a'', get_req ''b'', get_req ''c'']" "- 1"]
  by simp

section \<open>Request descriptors: construction and equality\<close>

lemma RequestInfo_init_other_invalid:
  "RequestInfo_init ''/'' ''GET'' (Some [])
     = Inr \<lparr>endpoint = ''/'', http_method = ''GET'', data = Some []\<rparr>
   \<and> RequestInfo_init [] ''get'' None
     = Inr \<lparr>endpoint = [], http_method = ''GET'', data = None\<rparr>
   \<and> RequestInfo_init ''/'' ''HELP'' None
     = Inr \<lparr>endpoint = ''/'', http_method = ''HELP'', data = None\<rparr>"
  by (simp add: RequestInfo_init_def upper_def upper_char_def)

text \<open>
  C3. The claim: construction fails for \<^verbatim>\<open>POST\<close> without payload (and for the other
  invalid combinations), so that no invalid descriptor exists. The code at
  \<^verbatim>\<open>RequestInfo("/", "POST", None)\<close>: the constructor returns a descriptor with method
  \<^verbatim>\<open>POST\<close> and no payload, which is not valid in the specification's sense.
\<close>

theorem RequestInfo_init_accepts_invalid:
  "RequestInfo_init ''/'' ''POST'' None
     = Inr \<lparr>endpoint = ''/'', http_method = ''POST'', data = None\<rparr>
   \<and> \<not> spec_valid_descriptor \<lparr>endpoint = ''/'', http_method = ''POST'', data = None\<rparr>"
  by (simp add: RequestInfo_init_def upper_def upper_char_def spec_valid_descriptor_def)

text \<open>
  C7. The claim: two descriptors built from identical field values compare equal. The code
  at \<^verbatim>\<open>RequestInfo("a", "GET") == RequestInfo("a", "GET")\<close>: the two constructions allocate
  the objects \<open>0\<close> and \<open>1\<close>, whose fields are equal, and the comparison of the two objects
  is false.
\<close>

theorem RequestInfo_eq_is_identity:
  "RequestInfo_new [] ''a'' ''GET'' None = ([get_req ''a''], Inr 0)
   \<and> RequestInfo_new [get_req ''a''] ''a'' ''GET'' None = ([get_req ''a'', get_req ''a''], Inr 1)
   \<and> [get_req ''a'', get_req ''a''] ! 0 = [get_req ''a'', get_req ''a''] ! 1
   \<and> \<not> object_eq 0 1"
  by (simp add: RequestInfo_new_def RequestInfo_init_def upper_def upper_char_def get_req_def
        object_eq_def)

section \<open>The worker pool after shutdown\<close>

lemma pool_before_shutdown:
  "single process_pool3 square 2 = Inr (Inr 4)
   \<and> batch process_pool3 square [1, 2, 3] = Inr [Inr 1, Inr 4, Inr 9]"
  by (simp add: single_def batch_def submit_def process_pool3_def square_def)





section \<open>Construction of the request pool\<close>

lemma as_requests_map: "as_requests (map OReq ds) = Some ds"
  by (induction ds) simp_all

lemma request_begins:
  "(http_connection e (hostname self) (port self) = Some err \<longrightarrow>
      request e self (OList (map OReq ds)) = ([], Inl err))
   \<and> (http_connection e (hostname self) (port self) = None \<longrightarrow>
      (\<exists>tr res. request e self (OList (map OReq ds))
         = (ConnCreated (hostname self) (port self) # tr, res)))"
  by (simp add: request_def as_requests_map split: prod.splits sum.splits)

text \<open>
  \<open>RequestPool.__init__\<close> accepts a hostname that the connection constructor of the
  standard library refuses; \<open>request\<close> on such a pool raises before any connection
  exists, even for the empty list.
\<close>

lemma request_invalid_host:
  "snd (RequestPool_init (OInt 1) (OStr '' '') (OInt 8081))
     = Inr (localhost_pool\<lparr>hostname := '' ''\<rparr>)
   \<and> request mock_env (localhost_pool\<lparr>hostname := '' ''\<rparr>) (OList [])
     = ([], Inl (InvalidURL ''URL can not contain control characters''))"
  by (simp add: RequestPool_init_def ProcessPool_init_def ProcessPoolExecutor_init_def
        localhost_pool_def request_def mock_env_def HTTPConnection_init_def
        disallowed_url_char_def)

text \<open>
  C6 as stated: the validation error is raised before the worker pool is created. At
  \<^verbatim>\<open>RequestPool(1, 1, 8081)\<close> the executor has been created when the \<^verbatim>\<open>TypeError\<close> for
  the hostname is raised.
\<close>

theorem RequestPool_init_pool_first_counterexample:
  "RequestPool_init (OInt 1) (OInt 1) (OInt 8081)
     = ([ExecutorCreated (OInt 1)], Inl (TypeError ''Hostname not given as string''))"
  by (simp add: RequestPool_init_def ProcessPool_init_def ProcessPoolExecutor_init_def)

text \<open>
  C6 amended. Whenever the worker count is one the executor accepts, constructing a
  \<open>RequestPool\<close> with a hostname that is not a string, a port that is not an integer, an
  empty hostname or a port below \<open>1\<close> raises the \<^verbatim>\<open>TypeError\<close> or \<^verbatim>\<open>ValueError\<close> of that
  check; the error is raised after the worker pool has been created, which is the only
  effect of the construction, so before any connection exists. For a non-empty hostname
  and a port of at least \<open>1\<close> the construction succeeds. \<open>request\<close> repeats none of the
  four checks: whatever the hostname and the port of the pool, also an empty hostname or
  a port below \<open>1\<close>, on a list of descriptors it goes straight to the constructor of the
  connection; it raises what that constructor raises, and otherwise its first effect is
  the creation of the connection.
\<close>

theorem RequestPool_init_validation:
  assumes "ProcessPool_init n = Inr p"
  shows "((\<forall>h. hostname' \<noteq> OStr h) \<longrightarrow>
            RequestPool_init n hostname' port'
              = ([ExecutorCreated n], Inl (TypeError ''Hostname not given as string'')))
       \<and> ((\<forall>pt. port' \<noteq> OInt pt) \<longrightarrow>
            RequestPool_init n (OStr h) port'
              = ([ExecutorCreated n], Inl (TypeError ''Port not given as int.'')))
       \<and> RequestPool_init n (OStr []) (OInt pt)
              = ([ExecutorCreated n], Inl (ValueError ''Blank hostname given''))
       \<and> (h \<noteq> [] \<and> pt < 1 \<longrightarrow>
            RequestPool_init n (OStr h) (OInt pt)
              = ([ExecutorCreated n], Inl (ValueError ''Invalid port number given'')))
       \<and> (h \<noteq> [] \<and> 1 \<le> pt \<longrightarrow>
            RequestPool_init n (OStr h) (OInt pt)
              = ([ExecutorCreated n], Inr \<lparr>pool = p, hostname = h, port = pt\<rparr>))
       \<and> (http_connection e (hostname self) (port self) = Some err \<longrightarrow>
            request e self (OList (map OReq ds)) = ([], Inl err))
       \<and> (http_connection e (hostname self) (port self) = None \<longrightarrow>
            (\<exists>tr res. request e self (OList (map OReq ds))
               = (ConnCreated (hostname self) (port self) # tr, res)))"
proof -
  have 1: "(\<forall>h. hostname' \<noteq> OStr h) \<longrightarrow>
            RequestPool_init n hostname' port'
              = ([ExecutorCreated n], Inl (TypeError ''Hostname not given as string''))"
    using assms by (cases hostname') (simp_all add: RequestPool_init_def)
  have 2: "(\<forall>pt. port' \<noteq> OInt pt) \<longrightarrow>
            RequestPool_init n (OStr h) port'
              = ([ExecutorCreated n], Inl (TypeError ''Port not given as int.''))"
    using assms by (cases port') (simp_all add: RequestPool_init_def)
  have 3: "RequestPool_init n (OStr []) (OInt pt)
              = ([ExecutorCreated n], Inl (ValueError ''Blank hostname given''))"
    using assms by (simp add: RequestPool_init_def)
  have 4: "h \<noteq> [] \<and> pt < 1 \<longrightarrow>
            RequestPool_init n (OStr h) (OInt pt)
              = ([ExecutorCreated n], Inl (ValueError ''Invalid port number given''))"
    using assms by (simp add: RequestPool_init_def)
  have 5: "h \<noteq> [] \<and> 1 \<le> pt \<longrightarrow>
            RequestPool_init n (OStr h) (OInt pt)
              = ([ExecutorCreated n], Inr \<lparr>pool = p, hostname = h, port = pt\<rparr>)"
    using assms by (simp add: RequestPool_init_def)
  show ?thesis using 1 2 3 4 5 request_begins [of e self err ds] by blast
qed

theorem RequestPool_init_validation_witness:
  "ProcessPool_init (OInt 1) = Inr (pool localhost_pool)
   \<and> RequestPool_init (OInt 1) (OInt 1) (OInt 8081)
       = ([ExecutorCreated (OInt 1)], Inl (TypeError ''Hostname not given as string''))
   \<and> RequestPool_init (OInt 1) (OStr ''localhost'') (OStr ''8081'')
       = ([ExecutorCreated (OInt 1)], Inl (TypeError ''Port not given as int.''))
   \<and> RequestPool_init (OInt 1) (OStr []) (OInt 8081)
       = ([ExecutorCreated (OInt 1)], Inl (ValueError ''Blank hostname given''))
   \<and> RequestPool_init (OInt 1) (OStr ''localhost'') (OInt 0)
       = ([ExecutorCreated (OInt 1)], Inl (ValueError ''Invalid port number given''))
   \<and> RequestPool_init (OInt 1) (OStr ''localhost'') (OInt 8081)
       = ([ExecutorCreated (OInt 1)], Inr localhost_pool)
   \<and> http_connection mock_env [] 0 = None
   \<and> (\<exists>tr res. request mock_env (localhost_pool\<lparr>hostname := [], port := 0\<rparr>)
                  (OList (map OReq [root_req]))
         = (ConnCreated [] 0 # tr, res))
   \<and> http_connection mock_env '' '' 8081
       = Some (InvalidURL ''URL can not contain control characters'')
   \<and> request mock_env (localhost_pool\<lparr>hostname := '' ''\<rparr>) (OList (map OReq [root_req]))
       = ([], Inl (InvalidURL ''URL can not contain control characters''))"
proof -
  have p: "ProcessPool_init (OInt 1) = Inr (pool localhost_pool)"
    by (simp add: ProcessPool_init_def ProcessPoolExecutor_init_def localhost_pool_def)
  have lp: "\<lparr>pool = pool localhost_pool, hostname = ''localhost'', port = 8081\<rparr> = localhost_pool"
    by (simp add: localhost_pool_def)
  have pp: "port localhost_pool = 8081"
    by (simp add: localhost_pool_def)
  have c0: "http_connection mock_env [] 0 = None"
    by (simp add: mock_env_def HTTPConnection_init_def)
  have c1: "http_connection mock_env '' '' 8081
       = Some (InvalidURL ''URL can not contain control characters'')"
    by (simp add: mock_env_def HTTPConnection_init_def disallowed_url_char_def)
  show ?thesis
    using p lp pp c0 c1
      RequestPool_init_validation [OF p, where hostname' = "OInt 1" and port' = "OInt 8081"
        and h = "''localhost''" and pt = 8081 and e = mock_env
        and self = "localhost_pool\<lparr>hostname := [], port := 0\<rparr>" and ds = "[root_req]"]
      RequestPool_init_validation [OF p, where hostname' = "OInt 1" and port' = "OStr ''8081''"
        and h = "''localhost''" and pt = 0 and e = mock_env
        and self = "localhost_pool\<lparr>hostname := '' ''\<rparr>" and ds = "[root_req]"
        and err = "InvalidURL ''URL can not contain control characters''"]
    by simp
qed

section \<open>Single and batch dispatch\<close>

lemma bound_request_unpicklable:
  "pickle_error (bound_request e self) = Some (TypeError ''cannot pickle _thread.lock object'')"
  by (simp add: bound_request_def pickle_RequestPool_def pickle_ProcessPool_def
        pickle_executor_def)

lemma dispatch_never_runs:
  "\<not> shutdown_thread (executor (pool self)) \<Longrightarrow>
     single_request e self x = Inr (Inl (TypeError ''cannot pickle _thread.lock object''))
     \<and> batch_request e self xs
         = Inr (map (\<lambda>x. Inl (TypeError ''cannot pickle _thread.lock object'')) xs)"
  by (induction xs)
     (simp_all add: single_request_def batch_request_def single_def batch_def submit_def
        bound_request_unpicklable)

text \<open>
  C5. The claim: the handle \<open>single_request\<close> returns for a sequence of descriptors
  yields, when awaited, the sequence of result tuples that \<open>batch_request\<close> yields for
  that sequence as its one partition. The code at
  \<^verbatim>\<open>RequestPool(1, "localhost", 8081).single_request([root_req])\<close>, with a transport that
  answers every request: the callable submitted is the bound method \<^verbatim>\<open>self.request\<close>,
  and \<^verbatim>\<open>self\<close> owns the executor, so the work item cannot be pickled and awaiting the handle
  raises that \<^verbatim>\<open>TypeError\<close>; the same happens for the single descriptor the unit test
  passes and for the batch. Run in the caller's process on the same list, \<open>request\<close>
  returns the result tuple the claim and the unit tests expect.
\<close>

theorem single_request_never_yields:
  "single_request mock_env localhost_pool (OList [OReq root_req])
     = Inr (Inl (TypeError ''cannot pickle _thread.lock object''))
   \<and> single_request mock_env localhost_pool (OReq root_req)
     = Inr (Inl (TypeError ''cannot pickle _thread.lock object''))
   \<and> batch_request mock_env localhost_pool [OList [OReq root_req]]
     = Inr [Inl (TypeError ''cannot pickle _thread.lock object'')]
   \<and> worker mock_env localhost_pool (OList [OReq root_req]) = Inr [(''okay'', 1, ''/'')]"
  by (simp add: single_request_def batch_request_def single_def batch_def submit_def
        bound_request_unpicklable worker_def request_def localhost_pool_def mock_env_def
        root_req_def get_req_def conn_request_def HTTPConnection_init_def
        disallowed_url_char_def)

section \<open>Executing requests\<close>

subsection \<open>The loop\<close>







subsection \<open>Headers\<close>








text \<open>
  The dictionaries themselves differ in two spellings, neither of which reaches a field
  name or a field value: the content type is passed under the name \<^verbatim>\<open>Content-type\<close>, and
  the connection value is passed as \<^verbatim>\<open>" keep-alive"\<close>, with a leading space.
\<close>

lemma post_headers_spelling:
  "map_of (post_headers self enc) ''Connection'' = Some '' keep-alive''
   \<and> map_of (get_headers self) ''Connection'' = Some ''keep-alive''
   \<and> map_of (post_headers self enc) ''Content-type'' = Some ''application/json''"
  by (simp add: post_headers_def get_headers_def)



subsection \<open>Results\<close>




subsection \<open>The connection\<close>




end
